theory Spec2Isabelle
  imports Complex_Main "HOL-Library.AList" "HOL-Library.Sublist"
begin

section \<open>Python values and the operations the client applies to them\<close>

text \<open>
  The client \<^verbatim>\<open>BedrockClient.llm_request\<close> of
  \<^verbatim>\<open>llmperf/ray_clients/bedrock_chat_completions_client.py\<close> works on JSON-like
  Python values: the sampling parameters, the additional request body, the response of
  \<^verbatim>\<open>converse\<close> and the events of \<^verbatim>\<open>converse_stream\<close>. A dict is an association
  list: \<^verbatim>\<open>d[k] = v\<close> is \<open>AList.update\<close> (replace in place, else append) and
  \<^verbatim>\<open>del d[k]\<close> is \<open>AList.delete\<close>. Python floats are modelled as reals: the
  differences, sums and quotients of the model are exact, those of the code are rounded
  to IEEE doubles.
\<close>

datatype pyval =
    PNone
  | PBool bool
  | PInt int
  | PFloat real
  | PStr string
  | PList "pyval list"
  | PDict "(string \<times> pyval) list"

type_synonym dict = "(string \<times> pyval) list"

datatype error =
    KeyError string
  | TypeError
  | IndexError
  | NameError string
  | ZeroDivisionError
  | ValueError string
  | RemoteError string

text \<open>Truth value of an object, as \<^verbatim>\<open>if x:\<close> tests it.\<close>

fun truthy :: "pyval \<Rightarrow> bool" where
  "truthy PNone = False"
| "truthy (PBool b) = b"
| "truthy (PInt i) = (i \<noteq> 0)"
| "truthy (PFloat r) = (r \<noteq> 0)"
| "truthy (PStr s) = (s \<noteq> [])"
| "truthy (PList xs) = (xs \<noteq> [])"
| "truthy (PDict d) = (d \<noteq> [])"

definition has_key :: "string \<Rightarrow> dict \<Rightarrow> bool" where
  "has_key k d = (map_of d k \<noteq> None)"

text \<open>\<^verbatim>\<open>x[k]\<close> with a string key: only a dict accepts it.\<close>

fun subscr :: "pyval \<Rightarrow> string \<Rightarrow> error + pyval" where
  "subscr (PDict d) k = (case map_of d k of Some v \<Rightarrow> Inr v | None \<Rightarrow> Inl (KeyError k))"
| "subscr _ k = Inl TypeError"

text \<open>\<^verbatim>\<open>x[0]\<close>: a dict with string keys has no key \<^verbatim>\<open>0\<close>.\<close>

fun subscr0 :: "pyval \<Rightarrow> error + pyval" where
  "subscr0 (PList xs) = (case xs of [] \<Rightarrow> Inl IndexError | x # _ \<Rightarrow> Inr x)"
| "subscr0 (PStr s) = (case s of [] \<Rightarrow> Inl IndexError | c # _ \<Rightarrow> Inr (PStr [c]))"
| "subscr0 (PDict d) = Inl (KeyError ''0'')"
| "subscr0 _ = Inl TypeError"

fun substr :: "string \<Rightarrow> string \<Rightarrow> bool" where
  "substr k [] = (k = [])"
| "substr k (c # cs) = (prefix k (c # cs) \<or> substr k cs)"

text \<open>\<^verbatim>\<open>k in x\<close> for a string \<^verbatim>\<open>k\<close>: key of a dict, substring of a string, element of a list.\<close>

fun py_in :: "string \<Rightarrow> pyval \<Rightarrow> error + bool" where
  "py_in k (PDict d) = Inr (has_key k d)"
| "py_in k (PStr s) = Inr (substr k s)"
| "py_in k (PList xs) = Inr (PStr k \<in> set xs)"
| "py_in k _ = Inl TypeError"

text \<open>
  \<^verbatim>\<open>generated_text += x\<close>: the left operand is a string on every path that reaches
  line 150, and a string plus anything else raises.
\<close>

fun str_iadd :: "pyval \<Rightarrow> pyval \<Rightarrow> error + pyval" where
  "str_iadd (PStr a) (PStr b) = Inr (PStr (a @ b))"
| "str_iadd _ _ = Inl TypeError"

text \<open>
  \<^verbatim>\<open>x / t\<close> for a float \<^verbatim>\<open>t\<close>. The quotient is the exact one; the rounding of the
  code's quotient, and the \<^verbatim>\<open>OverflowError\<close> of an integer too large for a float, are
  not modelled.
\<close>

fun py_div :: "pyval \<Rightarrow> real \<Rightarrow> error + real" where
  "py_div (PInt n) t = (if t = 0 then Inl ZeroDivisionError else Inr (real_of_int n / t))"
| "py_div (PFloat x) t = (if t = 0 then Inl ZeroDivisionError else Inr (x / t))"
| "py_div (PBool b) t = (if t = 0 then Inl ZeroDivisionError else Inr ((if b then 1 else 0) / t))"
| "py_div _ t = Inl TypeError"

definition sbind :: "error + 'a \<Rightarrow> ('a \<Rightarrow> error + 'b) \<Rightarrow> error + 'b" where
  "sbind r f = (case r of Inl e \<Rightarrow> Inl e | Inr v \<Rightarrow> f v)"

section \<open>Request Builder (lines 44 to 107)\<close>

text \<open>
  \<^verbatim>\<open>RequestConfig\<close> is declared in \<^verbatim>\<open>llmperf.models\<close>; the client reads these four
  fields. \<^verbatim>\<open>sampling_params\<close> and \<^verbatim>\<open>additional_request_body\<close> are optional dicts.
\<close>

record request_config =
  model :: string
  prompt :: "string \<times> int"
  sampling_params :: "dict option"
  additional_request_body :: "dict option"

text \<open>Lines 57 to 59, on the dict that \<^verbatim>\<open>request_config.sampling_params\<close> refers to.\<close>

definition rename_max_tokens :: "dict option \<Rightarrow> dict option" where
  "rename_max_tokens ic =
     (case ic of
        None \<Rightarrow> None
      | Some d \<Rightarrow>
          (if d \<noteq> [] \<and> has_key ''max_tokens'' d
           then (case map_of d ''max_tokens'' of
                   Some v \<Rightarrow> Some (AList.delete ''max_tokens'' (AList.update ''maxTokens'' v d))
                 | None \<Rightarrow> Some d)
           else Some d))"

text \<open>Lines 61 to 65: the dict after the deletion, and \<^verbatim>\<open>stream_model\<close>.\<close>

definition extract_stream :: "dict option \<Rightarrow> dict option \<times> pyval" where
  "extract_stream ic =
     (case ic of
        None \<Rightarrow> (None, PBool False)
      | Some d \<Rightarrow>
          (if d \<noteq> [] \<and> has_key ''stream'' d
           then (case map_of d ''stream'' of
                   Some v \<Rightarrow> (Some (AList.delete ''stream'' d), v)
                 | None \<Rightarrow> (Some d, PBool False))
           else (Some d, PBool False)))"

text \<open>Lines 85 and 86.\<close>

definition set_inference_config :: "dict option \<Rightarrow> dict \<Rightarrow> dict" where
  "set_inference_config ic api =
     (case ic of
        None \<Rightarrow> api
      | Some d \<Rightarrow> if d \<noteq> [] then AList.update ''inferenceConfig'' (PDict d) api else api)"

text \<open>\<^verbatim>\<open>"" if k not in body else body[k]\<close>\<close>

definition body_get :: "dict \<Rightarrow> string \<Rightarrow> pyval" where
  "body_get b k = (if \<not> has_key k b then PStr [] else (case map_of b k of Some v \<Rightarrow> v | None \<Rightarrow> PStr []))"

text \<open>
  Lines 88 to 107. Line 107 reads the name \<^verbatim>\<open>tool_config\<close>, which is bound nowhere in
  the module: evaluating it raises \<^verbatim>\<open>NameError\<close>.
\<close>

definition add_request_body :: "dict option \<Rightarrow> dict \<Rightarrow> error + dict" where
  "add_request_body arb api =
     (case arb of
        None \<Rightarrow> Inr api
      | Some b \<Rightarrow>
          (let system = body_get b ''system'';
               system_prompts = (if truthy system then PList [PDict [(''text'', system)]] else PNone);
               additionalModelRequestFields = body_get b ''additionalModelRequestFields'';
               additionalModelResponseFieldPaths = body_get b ''additionalModelResponseFieldPaths'';
               toolConfig = body_get b ''toolConfig'';
               api1 = (if truthy system_prompts then AList.update ''system'' system_prompts api else api);
               api2 = (if truthy additionalModelRequestFields
                       then AList.update ''additionalModelRequestFields'' additionalModelRequestFields api1
                       else api1);
               api3 = (if truthy additionalModelResponseFieldPaths
                       then AList.update ''additionalModelResponseFieldPaths'' additionalModelResponseFieldPaths api2
                       else api2)
           in if truthy toolConfig then Inl (NameError ''tool_config'') else Inr api3))"

text \<open>
  The whole builder. \<^verbatim>\<open>inference_config\<close> is the caller's \<^verbatim>\<open>sampling_params\<close> object
  itself, so lines 58, 59 and 63 change the caller's request: the first component is the
  request as the caller sees it afterwards (also when line 107 raises), the second the
  call arguments \<^verbatim>\<open>api_inputs\<close> with \<^verbatim>\<open>stream_model\<close>, or the exception.
\<close>

definition build_request :: "request_config \<Rightarrow> request_config \<times> (error + dict \<times> pyval)" where
  "build_request rc =
     (let (prompt_text, prompt_len) = prompt rc;
          model_id = model rc;
          (inference_config, stream_model) = extract_stream (rename_max_tokens (sampling_params rc));
          messages = PList [PDict [(''role'', PStr ''user''),
                                   (''content'', PList [PDict [(''text'', PStr prompt_text)]])]];
          api_inputs = set_inference_config inference_config
                         [(''modelId'', PStr model_id), (''messages'', messages)]
      in (rc\<lparr>sampling_params := inference_config\<rparr>,
          sbind (add_request_body (additional_request_body rc) api_inputs)
                (\<lambda>api. Inr (api, stream_model))))"

section \<open>Response Timing Engine (lines 110 to 195)\<close>

text \<open>
  The local variables of \<^verbatim>\<open>llm_request\<close>. \<^verbatim>\<open>time.monotonic()\<close> is a clock
  \<open>nat \<Rightarrow> real\<close>: its \<open>n\<close>-th call of the invocation returns \<open>clock n\<close>, and
  \<open>ticks\<close> counts the calls made so far.
\<close>

type_synonym clock = "nat \<Rightarrow> real"

record locals =
  role :: pyval
  generated_text :: pyval
  message_stop :: pyval
  usage :: pyval
  metrics :: pyval
  time_to_next_token :: "real list"
  tokens_received :: pyval
  ttft :: real
  error_response_code :: pyval
  error_msg :: pyval
  output_throughput :: real
  total_request_time :: real
  start_time :: real
  most_recent_received_token_time :: real
  ticks :: nat

text \<open>Lines 110 to 129.\<close>

definition init_locals :: "clock \<Rightarrow> locals" where
  "init_locals clock =
     \<lparr> role = PStr [], generated_text = PStr [], message_stop = PStr [],
       usage = PDict [], metrics = PDict [],
       time_to_next_token = [], tokens_received = PInt 0, ttft = 0,
       error_response_code = PNone, error_msg = PStr [],
       output_throughput = 0, total_request_time = 0,
       start_time = clock 0, most_recent_received_token_time = clock 1, ticks = 2 \<rparr>"

text \<open>
  A statement inside the \<^verbatim>\<open>try\<close> block leaves the locals as they are when it raises, so
  each step returns the locals together with the exception, if any.
\<close>

type_synonym outcome = "locals \<times> error option"

definition seq :: "outcome \<Rightarrow> (locals \<Rightarrow> outcome) \<Rightarrow> outcome" where
  "seq r f = (case r of (st, None) \<Rightarrow> f st | (st, Some e) \<Rightarrow> (st, Some e))"

definition assign :: "error + 'a \<Rightarrow> ('a \<Rightarrow> locals \<Rightarrow> locals) \<Rightarrow> locals \<Rightarrow> outcome" where
  "assign r upd st = (case r of Inl e \<Rightarrow> (st, Some e) | Inr v \<Rightarrow> (upd v st, None))"

definition guarded :: "error + bool \<Rightarrow> (locals \<Rightarrow> outcome) \<Rightarrow> locals \<Rightarrow> outcome" where
  "guarded c body st = (case c of Inl e \<Rightarrow> (st, Some e) | Inr b \<Rightarrow> if b then body st else (st, None))"

text \<open>Lines 136 and 137.\<close>

definition on_message_start :: "pyval \<Rightarrow> locals \<Rightarrow> outcome" where
  "on_message_start event =
     guarded (py_in ''messageStart'' event)
       (assign (sbind (subscr event ''messageStart'') (\<lambda>m. subscr m ''role''))
               (\<lambda>v st. st\<lparr>role := v\<rparr>))"

text \<open>Lines 141 to 148: the clock is read twice, on either branch.\<close>

definition time_delta :: "clock \<Rightarrow> locals \<Rightarrow> locals" where
  "time_delta clock st =
     (let st1 = (if ttft st = 0
                 then (let t = clock (ticks st) - start_time st
                       in st\<lparr>ttft := t, time_to_next_token := time_to_next_token st @ [t],
                             ticks := ticks st + 1\<rparr>)
                 else st\<lparr>time_to_next_token :=
                            time_to_next_token st @ [clock (ticks st) - most_recent_received_token_time st],
                          ticks := ticks st + 1\<rparr>)
      in st1\<lparr>most_recent_received_token_time := clock (ticks st1), ticks := ticks st1 + 1\<rparr>)"

text \<open>Lines 139 to 150.\<close>

definition on_content_delta :: "clock \<Rightarrow> pyval \<Rightarrow> locals \<Rightarrow> outcome" where
  "on_content_delta clock event =
     guarded (py_in ''contentBlockDelta'' event)
       (\<lambda>st. let st2 = time_delta clock st
             in assign (sbind (sbind (sbind (subscr event ''contentBlockDelta'')
                                            (\<lambda>b. subscr b ''delta''))
                                     (\<lambda>d. subscr d ''text''))
                              (str_iadd (generated_text st2)))
                       (\<lambda>v s. s\<lparr>generated_text := v\<rparr>) st2)"

text \<open>Lines 152 and 153.\<close>

definition on_message_stop :: "pyval \<Rightarrow> locals \<Rightarrow> outcome" where
  "on_message_stop event =
     guarded (py_in ''messageStop'' event)
       (assign (sbind (subscr event ''messageStop'') (\<lambda>m. subscr m ''stopReason''))
               (\<lambda>v st. st\<lparr>message_stop := v\<rparr>))"

text \<open>Lines 155 to 161.\<close>

definition on_metadata :: "pyval \<Rightarrow> locals \<Rightarrow> outcome" where
  "on_metadata event =
     guarded (py_in ''metadata'' event)
       (\<lambda>st. case subscr event ''metadata'' of
               Inl e \<Rightarrow> (st, Some e)
             | Inr metadata \<Rightarrow>
                 seq (guarded (py_in ''usage'' metadata)
                        (assign (subscr metadata ''usage'') (\<lambda>v s. s\<lparr>usage := v\<rparr>)) st)
                     (guarded (sbind (subscr event ''metadata'') (py_in ''metrics''))
                        (assign (subscr metadata ''metrics'') (\<lambda>v s. s\<lparr>metrics := v\<rparr>))))"

text \<open>One iteration of the loop of line 135: four independent \<^verbatim>\<open>if\<close> statements.\<close>

definition process_event :: "clock \<Rightarrow> pyval \<Rightarrow> locals \<Rightarrow> outcome" where
  "process_event clock event st =
     seq (seq (seq (on_message_start event st)
                   (on_content_delta clock event))
              (on_message_stop event))
         (on_metadata event)"

text \<open>
  The event stream is an iterator: each \<^verbatim>\<open>next\<close> either yields an event or raises.
  The loop ends when the iterator is exhausted or when anything raises.
\<close>

datatype stream_item = Yield pyval | Raise error

fun consume :: "clock \<Rightarrow> stream_item list \<Rightarrow> locals \<Rightarrow> outcome" where
  "consume clock [] st = (st, None)"
| "consume clock (Raise e # rest) st = (st, Some e)"
| "consume clock (Yield event # rest) st =
     (case process_event clock event st of
        (st', None) \<Rightarrow> consume clock rest st'
      | (st', Some e) \<Rightarrow> (st', Some e))"

text \<open>
  Lines 133 to 161. The remote call either raises or returns a response;
  \<^verbatim>\<open>response.get('stream')\<close> is \<^verbatim>\<open>None\<close> when the response has no stream, and
  iterating \<^verbatim>\<open>None\<close> raises.
\<close>

definition stream_path ::
  "clock \<Rightarrow> error + stream_item list option \<Rightarrow> locals \<Rightarrow> outcome" where
  "stream_path clock response st =
     (case response of
        Inl e \<Rightarrow> (st, Some e)
      | Inr None \<Rightarrow> (st, Some TypeError)
      | Inr (Some stream) \<Rightarrow> consume clock stream st)"

text \<open>Lines 163 to 175.\<close>

definition converse_path :: "error + pyval \<Rightarrow> locals \<Rightarrow> outcome" where
  "converse_path r st =
     (case r of
        Inl e \<Rightarrow> (st, Some e)
      | Inr response \<Rightarrow>
          (let message = sbind (subscr response ''output'') (\<lambda>out. subscr out ''message'')
           in seq (seq (seq (seq (seq
                (assign (sbind message (\<lambda>m. subscr m ''role'')) (\<lambda>v s. s\<lparr>role := v\<rparr>)
                        (st\<lparr>time_to_next_token := [], ttft := 0\<rparr>))
                (assign (sbind (sbind (sbind message (\<lambda>m. subscr m ''content'')) subscr0)
                               (\<lambda>c. subscr c ''text''))
                        (\<lambda>v s. s\<lparr>generated_text := v\<rparr>)))
                (assign (subscr response ''stopReason'') (\<lambda>v s. s\<lparr>message_stop := v\<rparr>)))
                (assign (subscr response ''usage'') (\<lambda>v s. s\<lparr>usage := v\<rparr>)))
                (assign (subscr response ''metrics'') (\<lambda>v s. s\<lparr>metrics := v\<rparr>)))
                (assign (subscr response ''usage'') (\<lambda>v s. s))))"

text \<open>Lines 177 to 179.\<close>

definition compute_throughput :: "clock \<Rightarrow> locals \<Rightarrow> outcome" where
  "compute_throughput clock st =
     seq (assign (subscr (usage st) ''outputTokens'') (\<lambda>v s. s\<lparr>tokens_received := v\<rparr>) st)
         (\<lambda>s. let s1 = s\<lparr>total_request_time := clock (ticks s) - start_time s,
                          ticks := ticks s + 1\<rparr>
              in assign (py_div (tokens_received s1) (total_request_time s1))
                        (\<lambda>v s2. s2\<lparr>output_throughput := v\<rparr>) s1)"

text \<open>
  The \<^verbatim>\<open>try\<close> block, lines 131 to 179: the locals when it is left, and the exception the
  \<^verbatim>\<open>except Exception\<close> clause catches, if any. The two remote calls
  \<^verbatim>\<open>converse\<close> and \<^verbatim>\<open>converse_stream\<close> are the parameters \<open>converse_fn\<close> and
  \<open>converse_stream_fn\<close>.
\<close>

definition try_block ::
  "clock \<Rightarrow> (dict \<Rightarrow> error + pyval) \<Rightarrow> (dict \<Rightarrow> error + stream_item list option) \<Rightarrow>
   dict \<Rightarrow> pyval \<Rightarrow> outcome" where
  "try_block clock converse_fn converse_stream_fn api_inputs stream_model =
     seq (if truthy stream_model
          then stream_path clock (converse_stream_fn api_inputs) (init_locals clock)
          else converse_path (converse_fn api_inputs) (init_locals clock))
         (compute_throughput clock)"

text \<open>
  The metrics dict. Its keys are the constants of \<^verbatim>\<open>llmperf.common_metrics\<close>, nine
  distinct strings, so the dict is a record with one field for each.
\<close>

record benchmark_metrics =
  ERROR_CODE :: pyval
  ERROR_MSG :: pyval
  INTER_TOKEN_LAT :: real
  TTFT :: real
  E2E_LAT :: real
  REQ_OUTPUT_THROUGHPUT :: real
  NUM_TOTAL_TOKENS :: pyval
  NUM_OUTPUT_TOKENS :: pyval
  NUM_INPUT_TOKENS :: pyval

text \<open>
  Lines 116 to 118, 181 to 183 and 187 to 193. The handler stores the locals
  \<^verbatim>\<open>error_msg\<close> and \<^verbatim>\<open>error_response_code\<close>; the three reads of \<^verbatim>\<open>usage\<close>
  are outside the \<^verbatim>\<open>try\<close> block, so what they raise reaches the caller.
\<close>

definition post_process :: "outcome \<Rightarrow> error + benchmark_metrics" where
  "post_process r =
     (case r of (st, caught) \<Rightarrow>
        sbind (subscr (usage st) ''totalTokens'') (\<lambda>total.
        sbind (subscr (usage st) ''outputTokens'') (\<lambda>out.
        sbind (subscr (usage st) ''inputTokens'') (\<lambda>inp.
          Inr \<lparr> ERROR_CODE = (case caught of None \<Rightarrow> PNone | Some e \<Rightarrow> error_response_code st),
                ERROR_MSG = (case caught of None \<Rightarrow> PStr [] | Some e \<Rightarrow> error_msg st),
                INTER_TOKEN_LAT = sum_list (time_to_next_token st),
                TTFT = ttft st,
                E2E_LAT = total_request_time st,
                REQ_OUTPUT_THROUGHPUT = output_throughput st,
                NUM_TOTAL_TOKENS = total,
                NUM_OUTPUT_TOKENS = out,
                NUM_INPUT_TOKENS = inp \<rparr>))))"

text \<open>Lines 37 to 42: \<^verbatim>\<open>not os.environ.get(k)\<close> holds for a missing and for an empty value.\<close>

definition env_unset :: "(string \<times> string) list \<Rightarrow> string \<Rightarrow> bool" where
  "env_unset env k = (case map_of env k of None \<Rightarrow> True | Some v \<Rightarrow> v = [])"

text \<open>
  \<^verbatim>\<open>llm_request\<close>: the environment and the clock are parameters, as are the two remote
  calls of the \<^verbatim>\<open>boto3\<close> client. \<open>Inl\<close> is an exception that reaches the caller,
  \<open>Inr\<close> the returned triple.
\<close>

definition llm_request ::
  "(string \<times> string) list \<Rightarrow> clock \<Rightarrow> (dict \<Rightarrow> error + pyval) \<Rightarrow>
   (dict \<Rightarrow> error + stream_item list option) \<Rightarrow> request_config \<Rightarrow>
   error + benchmark_metrics \<times> pyval \<times> request_config" where
  "llm_request env clock converse_fn converse_stream_fn rc =
     (if env_unset env ''AWS_ACCESS_KEY_ID'' then Inl (ValueError ''AWS_ACCESS_KEY_ID must be set.'')
      else if env_unset env ''AWS_SECRET_ACCESS_KEY''
        then Inl (ValueError ''AWS_SECRET_ACCESS_KEY must be set.'')
      else if env_unset env ''AWS_REGION_NAME'' then Inl (ValueError ''AWS_REGION_NAME must be set.'')
      else (case build_request rc of
              (rc', Inl e) \<Rightarrow> Inl e
            | (rc', Inr (api_inputs, stream_model)) \<Rightarrow>
                (let r = try_block clock converse_fn converse_stream_fn api_inputs stream_model
                 in sbind (post_process r)
                          (\<lambda>bm. Inr (bm, generated_text (fst r), rc')))))"

section \<open>Notions used to state the properties\<close>

text \<open>The call arguments the builder produces for a request, or the exception it raises.\<close>

definition call_arguments :: "request_config \<Rightarrow> error + dict" where
  "call_arguments rc = sbind (snd (build_request rc)) (\<lambda>r. Inr (fst r))"

text \<open>
  An event takes the content-delta branch of the loop when \<^verbatim>\<open>'contentBlockDelta' in event\<close>
  holds; the text it carries is \<^verbatim>\<open>event['contentBlockDelta']['delta']['text']\<close>.
\<close>

definition has_delta :: "pyval \<Rightarrow> bool" where
  "has_delta event = (py_in ''contentBlockDelta'' event = Inr True)"

definition carried_text :: "pyval \<Rightarrow> error + pyval" where
  "carried_text event =
     sbind (sbind (subscr event ''contentBlockDelta'') (\<lambda>b. subscr b ''delta''))
           (\<lambda>d. subscr d ''text'')"

definition is_delta :: "stream_item \<Rightarrow> bool" where
  "is_delta item = (case item of Yield event \<Rightarrow> has_delta event | Raise e \<Rightarrow> False)"

text \<open>The text a stream carries: the texts of its content deltas, in arrival order.\<close>

definition delta_text :: "pyval \<Rightarrow> string" where
  "delta_text event = (case carried_text event of Inr (PStr s) \<Rightarrow> s | _ \<Rightarrow> [])"

definition item_text :: "stream_item \<Rightarrow> string" where
  "item_text item =
     (case item of Yield event \<Rightarrow> if has_delta event then delta_text event else [] | Raise e \<Rightarrow> [])"

definition delta_texts :: "stream_item list \<Rightarrow> string" where
  "delta_texts items = concat (map item_text items)"

text \<open>The timing trace: the part of the locals that the timing statements read and write.\<close>

definition timing :: "locals \<Rightarrow> real \<times> real list \<times> real \<times> real \<times> nat" where
  "timing st = (ttft st, time_to_next_token st, start_time st,
                most_recent_received_token_time st, ticks st)"

text \<open>
  While the loop handles the \<open>k\<close>-th content delta of an invocation (counting from 0) it
  reads the clock twice, after the two readings of lines 128 and 129; both readings
  show \<open>t\<close>.
\<close>

definition reads_at :: "clock \<Rightarrow> nat \<Rightarrow> real \<Rightarrow> bool" where
  "reads_at clock k t = (clock (2 * k + 2) = t \<and> clock (2 * k + 3) = t)"

text \<open>
  IEEE doubles of magnitude between \<open>2 ^ 52 / 2 ^ 1074\<close> and \<open>2 ^ 53\<close>: \<open>dbl m k\<close> is the
  double with the 53-bit significand \<open>m\<close> and the exponent \<open>- k\<close>, one unit in its last
  place being \<open>1 / 2 ^ k\<close>. \<open>nearest_dbl m k r\<close> says that it lies less than half such a
  unit from the real \<open>r\<close>: for a significand above \<open>2 ^ 52\<close> it is then the double
  nearest to \<open>r\<close>, the one that a literal or a correctly rounded operation with the exact
  value \<open>r\<close> denotes.
\<close>

definition dbl :: "int \<Rightarrow> nat \<Rightarrow> real" where
  "dbl m k = of_int m / 2 ^ k"

definition is_dbl :: "int \<Rightarrow> nat \<Rightarrow> bool" where
  "is_dbl m k = (2 ^ 52 \<le> m \<and> m < 2 ^ 53 \<and> k \<le> 1074)"

definition nearest_dbl :: "int \<Rightarrow> nat \<Rightarrow> real \<Rightarrow> bool" where
  "nearest_dbl m k r = (is_dbl m k \<and> \<bar>dbl m k - r\<bar> * 2 ^ (k + 1) < 1)"

text \<open>
  The doubles written \<^verbatim>\<open>0.1\<close>, \<^verbatim>\<open>0.2\<close> and \<^verbatim>\<open>0.3\<close>, and the double that
  \<^verbatim>\<open>0.3 - 0.1\<close> evaluates to, which Python prints as \<^verbatim>\<open>0.19999999999999998\<close>.
\<close>

definition double_01 :: real where "double_01 = dbl 7205759403792794 56"

definition double_02 :: real where "double_02 = dbl 7205759403792794 55"

definition double_03 :: real where "double_03 = dbl 5404319552844595 54"

definition double_03_minus_01 :: real where "double_03_minus_01 = dbl 7205759403792793 55"

section \<open>Concrete requests, streams and clocks\<close>

definition example_env :: "(string \<times> string) list" where
  "example_env = [(''AWS_ACCESS_KEY_ID'', ''id''), (''AWS_SECRET_ACCESS_KEY'', ''key''),
                  (''AWS_REGION_NAME'', ''us-east-1'')]"

definition rc_stream :: request_config where
  "rc_stream = \<lparr> model = ''m'', prompt = (''hi'', 1),
                 sampling_params = Some [(''max_tokens'', PInt 100), (''stream'', PBool True)],
                 additional_request_body = None \<rparr>"

definition rc_plain :: request_config where
  "rc_plain = \<lparr> model = ''m'', prompt = (''hi'', 1),
                sampling_params = Some [(''temperature'', PFloat (1 / 2))],
                additional_request_body = None \<rparr>"

definition rc_tool :: request_config where
  "rc_tool = \<lparr> model = ''m'', prompt = (''hi'', 1), sampling_params = None,
               additional_request_body =
                 Some [(''toolConfig'', PDict [(''tools'', PList [PDict [(''name'', PStr ''t'')]])])] \<rparr>"

definition start_event :: pyval where
  "start_event = PDict [(''messageStart'', PDict [(''role'', PStr ''assistant'')])]"

definition delta_event :: "string \<Rightarrow> pyval" where
  "delta_event s = PDict [(''contentBlockDelta'', PDict [(''delta'', PDict [(''text'', PStr s)])])]"

definition interrupted_stream :: "stream_item list" where
  "interrupted_stream = [Yield start_event, Yield (delta_event ''Hel''), Yield (delta_event ''lo'')]"

definition stop_event :: pyval where
  "stop_event = PDict [(''messageStop'', PDict [(''stopReason'', PStr ''end_turn'')])]"

definition usage_event :: pyval where
  "usage_event =
     PDict [(''metadata'',
             PDict [(''usage'', PDict [(''inputTokens'', PInt 3), (''outputTokens'', PInt 5),
                                       (''totalTokens'', PInt 8)]),
                    (''metrics'', PDict [(''latencyMs'', PInt 120)])])]"

definition three_delta_stream :: "stream_item list" where
  "three_delta_stream =
     [Yield start_event, Yield (delta_event ''a''), Yield (delta_event ''b''),
      Yield (delta_event ''c''), Yield stop_event, Yield usage_event]"

definition sim_clock :: clock where
  "sim_clock n = (if n < 2 then 0 else if n < 4 then 1 / 10 else if n < 8 then 3 / 10 else 1 / 2)"


definition no_converse :: "dict \<Rightarrow> error + pyval" where
  "no_converse api = Inl (RemoteError ''not called'')"


definition failed_stream :: "stream_item list" where
  "failed_stream = [Yield (delta_event ''Hi''), Yield usage_event,
                    Raise (RemoteError ''modelStreamErrorException'')]"

definition two_key_event :: pyval where
  "two_key_event =
     PDict [(''contentBlockDelta'', PDict [(''delta'', PDict [(''text'', PStr ''!'')])]),
            (''messageStop'', PDict [(''stopReason'', PStr ''end_turn'')])]"

definition coarse_clock :: clock where
  "coarse_clock n = (if n < 4 then 0 else 1 / 2)"

definition two_delta_stream :: "stream_item list" where
  "two_delta_stream = [Yield (delta_event ''a''), Yield (delta_event ''b''), Yield usage_event]"

text \<open>
  A simulated clock that shows 0.0 at call start, the doubles 0.1, 0.3 and 0.3 while three
  content deltas are handled, and 0.5 afterwards.
\<close>

definition double_clock :: clock where
  "double_clock n = (if n < 2 then 0 else if n < 4 then double_01
                     else if n < 8 then double_03 else dbl 4503599627370496 53)"

section \<open>Request Builder: properties\<close>

lemma has_key_delete: "has_key k (AList.delete k' d) = (k \<noteq> k' \<and> has_key k d)"
  by (auto simp: has_key_def delete_conv')

lemma rename_max_tokens_no_key:
  "rename_max_tokens ic = Some d \<Longrightarrow> \<not> has_key ''max_tokens'' d"
  by (auto simp: rename_max_tokens_def has_key_def delete_conv' split: option.splits if_splits)

lemma extract_stream_no_key:
  "extract_stream ic = (Some d, sm) \<Longrightarrow> \<not> has_key ''stream'' d"
  by (auto simp: extract_stream_def has_key_def delete_conv' split: option.splits if_splits)

lemma extract_stream_keeps_absent:
  "extract_stream ic = (Some d, sm) \<Longrightarrow> ic = Some d0 \<Longrightarrow> \<not> has_key k d0 \<Longrightarrow> \<not> has_key k d"
  by (auto simp: extract_stream_def has_key_delete split: option.splits if_splits)

lemma rename_max_tokens_fixed: "\<not> has_key ''max_tokens'' d \<Longrightarrow> rename_max_tokens (Some d) = Some d"
  by (simp add: rename_max_tokens_def)

lemma extract_stream_fixed: "\<not> has_key ''stream'' d \<Longrightarrow> extract_stream (Some d) = (Some d, PBool False)"
  by (simp add: extract_stream_def)

lemma builder_second_run:
  assumes "extract_stream (rename_max_tokens ic) = (ic', sm)"
  shows "extract_stream (rename_max_tokens ic') = (ic', PBool False)"
proof (cases ic')
  case None
  then show ?thesis by (simp add: rename_max_tokens_def extract_stream_def)
next
  case (Some d)
  with assms have s: "\<not> has_key ''stream'' d" by (simp add: extract_stream_no_key)
  from assms Some obtain d0 where d0: "rename_max_tokens ic = Some d0"
    by (cases "rename_max_tokens ic") (auto simp: extract_stream_def)
  then have "\<not> has_key ''max_tokens'' d0" by (rule rename_max_tokens_no_key)
  with assms Some d0 have "\<not> has_key ''max_tokens'' d"
    using extract_stream_keeps_absent by blast
  with s Some show ?thesis by (simp add: rename_max_tokens_fixed extract_stream_fixed)
qed

lemma build_request_rc_stream:
  "build_request rc_stream =
     (rc_stream\<lparr>sampling_params := Some [(''maxTokens'', PInt 100)]\<rparr>,
      Inr ([(''modelId'', PStr ''m''),
            (''messages'', PList [PDict [(''role'', PStr ''user''),
                                         (''content'', PList [PDict [(''text'', PStr ''hi'')]])]]),
            (''inferenceConfig'', PDict [(''maxTokens'', PInt 100)])], PBool True))"
  by (simp add: build_request_def rc_stream_def rename_max_tokens_def extract_stream_def has_key_def
      set_inference_config_def add_request_body_def sbind_def)

lemma tool_config_raises:
  assumes "additional_request_body rc = Some b" and "truthy (body_get b ''toolConfig'')"
  shows "snd (build_request rc) = Inl (NameError ''tool_config'')"
  using assms by (simp add: build_request_def split_beta add_request_body_def sbind_def Let_def)

text \<open>
  C7. A request whose additional request body carries a non-empty \<^verbatim>\<open>toolConfig\<close> should
  get that value under the \<^verbatim>\<open>toolConfig\<close> key of the call arguments. Line 107 reads the
  unbound name \<^verbatim>\<open>tool_config\<close> instead: for the request \<open>rc_tool\<close> the builder raises
  \<^verbatim>\<open>NameError\<close>, no call arguments exist, and the exception reaches the caller of
  \<^verbatim>\<open>llm_request\<close>.
\<close>

theorem tool_config_name_error:
  "snd (build_request rc_tool) = Inl (NameError ''tool_config'') \<and>
   llm_request example_env clock converse_fn converse_stream_fn rc_tool = Inl (NameError ''tool_config'')"
  by (simp add: llm_request_def example_env_def env_unset_def build_request_def rc_tool_def
      rename_max_tokens_def extract_stream_def set_inference_config_def add_request_body_def
      body_get_def has_key_def sbind_def)

text \<open>
  C8. Running the builder a second time on the same request object, as the first run left
  it, yields the same call arguments (or the same exception) as the first run, and leaves
  the object as the first run left it.
\<close>

theorem build_request_idempotent:
  "call_arguments (fst (build_request rc)) = call_arguments rc \<and>
   fst (build_request (fst (build_request rc))) = fst (build_request rc)"
proof -
  obtain ic' sm where e: "extract_stream (rename_max_tokens (sampling_params rc)) = (ic', sm)"
    by (cases "extract_stream (rename_max_tokens (sampling_params rc))")
  from builder_second_run [OF e] e show ?thesis
    by (simp add: call_arguments_def build_request_def split_beta sbind_def split: sum.splits)
qed

text \<open>
  C3, as stated: building the call arguments leaves the caller's \<^verbatim>\<open>sampling_params\<close>
  object unchanged. It does not: \<^verbatim>\<open>inference_config\<close> is that object, not a copy, and
  for the request \<open>rc_stream\<close> the object differs after the builder has run.
\<close>

theorem sampling_params_mutated:
  "sampling_params (fst (build_request rc_stream)) \<noteq> sampling_params rc_stream"
  by (simp add: build_request_rc_stream) (simp add: rc_stream_def)

lemma builder_dict:
  assumes "extract_stream (rename_max_tokens (Some d)) = (ic, sm)"
  shows "\<exists>d'. ic = Some d' \<and>
           map_of d' ''max_tokens'' = None \<and> map_of d' ''stream'' = None \<and>
           map_of d' ''maxTokens'' =
             (case map_of d ''max_tokens'' of Some v \<Rightarrow> Some v | None \<Rightarrow> map_of d ''maxTokens'') \<and>
           (\<forall>k. k \<noteq> ''max_tokens'' \<and> k \<noteq> ''maxTokens'' \<and> k \<noteq> ''stream'' \<longrightarrow>
                 map_of d' k = map_of d k) \<and>
           (map_of d ''max_tokens'' = None \<and> map_of d ''stream'' = None \<longrightarrow> d' = d)"
  using assms
  by (auto simp: rename_max_tokens_def extract_stream_def has_key_def delete_conv' update_conv'
           split: option.splits if_splits)

text \<open>
  C3, amended. The builder edits the caller's \<^verbatim>\<open>sampling_params\<close> dict in place, and
  only so: afterwards the dict has no \<^verbatim>\<open>max_tokens\<close> and no \<^verbatim>\<open>stream\<close> key,
  \<^verbatim>\<open>maxTokens\<close> holds the former \<^verbatim>\<open>max_tokens\<close> value when there was one and is as
  before otherwise, every other key has its former value, and a dict that had neither
  \<^verbatim>\<open>max_tokens\<close> nor \<^verbatim>\<open>stream\<close> is unchanged. The other fields of the request are
  unchanged.
\<close>

theorem build_request_edits_in_place:
  assumes "sampling_params rc = Some d"
  shows "(\<exists>d'. sampling_params (fst (build_request rc)) = Some d' \<and>
           map_of d' ''max_tokens'' = None \<and> map_of d' ''stream'' = None \<and>
           map_of d' ''maxTokens'' =
             (case map_of d ''max_tokens'' of Some v \<Rightarrow> Some v | None \<Rightarrow> map_of d ''maxTokens'') \<and>
           (\<forall>k. k \<noteq> ''max_tokens'' \<and> k \<noteq> ''maxTokens'' \<and> k \<noteq> ''stream'' \<longrightarrow>
                 map_of d' k = map_of d k) \<and>
           (map_of d ''max_tokens'' = None \<and> map_of d ''stream'' = None \<longrightarrow> d' = d)) \<and>
         model (fst (build_request rc)) = model rc \<and>
         prompt (fst (build_request rc)) = prompt rc \<and>
         additional_request_body (fst (build_request rc)) = additional_request_body rc"
proof -
  obtain ic sm where e: "extract_stream (rename_max_tokens (Some d)) = (ic, sm)" by force
  from builder_dict [OF e] e assms show ?thesis
    by (simp add: build_request_def split_beta)
qed

theorem build_request_edits_in_place_witness:
  "sampling_params rc_stream = Some [(''max_tokens'', PInt 100), (''stream'', PBool True)] \<and>
   (\<exists>d'. sampling_params (fst (build_request rc_stream)) = Some d' \<and>
        map_of d' ''max_tokens'' = None \<and> map_of d' ''stream'' = None \<and>
        map_of d' ''maxTokens'' = Some (PInt 100)) \<and>
   sampling_params (fst (build_request rc_plain)) = sampling_params rc_plain"
proof -
  have s: "sampling_params rc_stream = Some [(''max_tokens'', PInt 100), (''stream'', PBool True)]"
    by (simp add: rc_stream_def)
  have p: "sampling_params rc_plain = Some [(''temperature'', PFloat (1 / 2))]"
    by (simp add: rc_plain_def)
  from build_request_edits_in_place [OF s]
  have 1: "\<exists>d'. sampling_params (fst (build_request rc_stream)) = Some d' \<and>
        map_of d' ''max_tokens'' = None \<and> map_of d' ''stream'' = None \<and>
        map_of d' ''maxTokens'' = Some (PInt 100)"
    by auto
  from build_request_edits_in_place [OF p]
  have 2: "sampling_params (fst (build_request rc_plain)) = sampling_params rc_plain"
    by (auto simp: p)
  from s 1 2 show ?thesis by blast
qed

section \<open>Response Timing Engine: properties\<close>

lemma on_message_start_frame:
  "on_message_start event st = (st', r) \<Longrightarrow> st'\<lparr>role := role st\<rparr> = st"
  by (auto simp: on_message_start_def guarded_def assign_def split: sum.splits if_splits)

lemma on_message_stop_frame:
  "on_message_stop event st = (st', r) \<Longrightarrow> st'\<lparr>message_stop := message_stop st\<rparr> = st"
  by (auto simp: on_message_stop_def guarded_def assign_def split: sum.splits if_splits)

lemma on_metadata_frame:
  "on_metadata event st = (st', r) \<Longrightarrow> st'\<lparr>usage := usage st, metrics := metrics st\<rparr> = st"
  by (auto simp: on_metadata_def guarded_def assign_def seq_def sbind_def
           split: sum.splits if_splits option.splits prod.splits)

lemma time_delta_frame [simp]:
  "role (time_delta clock st) = role st"
  "generated_text (time_delta clock st) = generated_text st"
  "message_stop (time_delta clock st) = message_stop st"
  "usage (time_delta clock st) = usage st"
  "metrics (time_delta clock st) = metrics st"
  "tokens_received (time_delta clock st) = tokens_received st"
  "error_response_code (time_delta clock st) = error_response_code st"
  "error_msg (time_delta clock st) = error_msg st"
  "output_throughput (time_delta clock st) = output_throughput st"
  "total_request_time (time_delta clock st) = total_request_time st"
  "start_time (time_delta clock st) = start_time st"
  by (simp_all add: time_delta_def Let_def)

lemma time_delta_timing:
  "ticks (time_delta clock st) = ticks st + 2"
  "most_recent_received_token_time (time_delta clock st) = clock (ticks st + 1)"
  "ttft (time_delta clock st) = (if ttft st = 0 then clock (ticks st) - start_time st else ttft st)"
  "time_to_next_token (time_delta clock st) =
     time_to_next_token st @
       [if ttft st = 0 then clock (ticks st) - start_time st
        else clock (ticks st) - most_recent_received_token_time st]"
  by (simp_all add: time_delta_def Let_def)

lemma timing_time_delta_cong:
  "timing a = timing b \<Longrightarrow> timing (time_delta clock a) = timing (time_delta clock b)"
  by (simp add: timing_def time_delta_timing)

lemma timing_funpow_cong:
  "timing a = timing b \<Longrightarrow> timing ((time_delta clock ^^ n) a) = timing ((time_delta clock ^^ n) b)"
proof (induction n)
  case 0
  then show ?case by simp
next
  case (Suc n)
  from Suc.IH [OF Suc.prems] show ?case
    by (simp only: funpow.simps o_apply) (rule timing_time_delta_cong)
qed

lemma on_content_delta_cases:
  assumes "on_content_delta clock event st = (st', r)"
  shows "(\<not> has_delta event \<and> st' = st) \<or>
     (has_delta event \<and> r \<noteq> None \<and> st' = time_delta clock st) \<or>
     (has_delta event \<and> r = None \<and>
        sbind (carried_text event) (str_iadd (generated_text st)) = Inr (generated_text st') \<and>
        st'\<lparr>generated_text := generated_text st\<rparr> = time_delta clock st)"
  using assms
  by (auto simp: on_content_delta_def guarded_def assign_def has_delta_def carried_text_def Let_def
           split: sum.splits if_splits)

lemma appended_text:
  assumes "sbind (carried_text event) (str_iadd (PStr g)) = Inr v"
  shows "v = PStr (g @ delta_text event)"
proof (cases "carried_text event")
  case (Inl e)
  with assms show ?thesis by (simp add: sbind_def)
next
  case (Inr t)
  with assms show ?thesis by (cases t) (simp_all add: sbind_def delta_text_def)
qed

lemma start_keeps:
  assumes "on_message_start event st = (s1, r)"
  shows "timing s1 = timing st" and "generated_text s1 = generated_text st"
  using arg_cong [OF on_message_start_frame [OF assms], of timing]
    arg_cong [OF on_message_start_frame [OF assms], of generated_text]
  by (simp_all add: timing_def)

lemma stop_keeps:
  assumes "on_message_stop event st = (s1, r)"
  shows "timing s1 = timing st" and "generated_text s1 = generated_text st"
  using arg_cong [OF on_message_stop_frame [OF assms], of timing]
    arg_cong [OF on_message_stop_frame [OF assms], of generated_text]
  by (simp_all add: timing_def)

lemma metadata_keeps:
  assumes "on_metadata event st = (s1, r)"
  shows "timing s1 = timing st" and "generated_text s1 = generated_text st"
  using arg_cong [OF on_metadata_frame [OF assms], of timing]
    arg_cong [OF on_metadata_frame [OF assms], of generated_text]
  by (simp_all add: timing_def)

lemma delta_success:
  assumes "on_content_delta clock event st = (s1, None)"
  shows "timing s1 = timing (if has_delta event then time_delta clock st else st)"
    and "if has_delta event
         then sbind (carried_text event) (str_iadd (generated_text st)) = Inr (generated_text s1)
         else generated_text s1 = generated_text st"
proof -
  from on_content_delta_cases [OF assms]
  consider "\<not> has_delta event" "s1 = st"
    | "has_delta event"
      "sbind (carried_text event) (str_iadd (generated_text st)) = Inr (generated_text s1)"
      "s1\<lparr>generated_text := generated_text st\<rparr> = time_delta clock st"
    by blast
  then show "timing s1 = timing (if has_delta event then time_delta clock st else st)"
  proof cases
    case 1
    then show ?thesis by simp
  next
    case 2
    from arg_cong [OF 2(3), of timing] 2(1) show ?thesis by (simp add: timing_def)
  qed
  from on_content_delta_cases [OF assms]
  show "if has_delta event
         then sbind (carried_text event) (str_iadd (generated_text st)) = Inr (generated_text s1)
         else generated_text s1 = generated_text st"
    by auto
qed

lemma delta_text_cases:
  assumes "on_content_delta clock event st = (s1, r)"
  shows "generated_text s1 = generated_text st \<or>
         (has_delta event \<and>
          sbind (carried_text event) (str_iadd (generated_text st)) = Inr (generated_text s1))"
  using on_content_delta_cases [OF assms] by auto

lemma process_event_stages:
  assumes "process_event clock event st = (st', None)"
  obtains s1 s2 s3 where
    "on_message_start event st = (s1, None)"
    "on_content_delta clock event s1 = (s2, None)"
    "on_message_stop event s2 = (s3, None)"
    "on_metadata event s3 = (st', None)"
  using assms
  by (auto simp: process_event_def seq_def split: prod.splits option.splits)

lemma process_event_success:
  assumes "process_event clock event st = (st', None)"
  shows "timing st' = timing (if has_delta event then time_delta clock st else st)"
    and "if has_delta event
         then sbind (carried_text event) (str_iadd (generated_text st)) = Inr (generated_text st')
         else generated_text st' = generated_text st"
proof -
  from assms obtain s1 s2 s3 where
    a: "on_message_start event st = (s1, None)" and
    b: "on_content_delta clock event s1 = (s2, None)" and
    c: "on_message_stop event s2 = (s3, None)" and
    d: "on_metadata event s3 = (st', None)"
    by (rule process_event_stages)
  have t: "timing st' = timing s2"
    using metadata_keeps(1) [OF d] stop_keeps(1) [OF c] by simp
  have g: "generated_text st' = generated_text s2"
    using metadata_keeps(2) [OF d] stop_keeps(2) [OF c] by simp
  have "timing (time_delta clock s1) = timing (time_delta clock st)"
    using start_keeps(1) [OF a] by (rule timing_time_delta_cong)
  with delta_success(1) [OF b] start_keeps(1) [OF a] t
  show "timing st' = timing (if has_delta event then time_delta clock st else st)"
    by (cases "has_delta event") simp_all
  from delta_success(2) [OF b] start_keeps(2) [OF a] g
  show "if has_delta event
         then sbind (carried_text event) (str_iadd (generated_text st)) = Inr (generated_text st')
         else generated_text st' = generated_text st"
    by (cases "has_delta event") simp_all
qed

lemma process_event_text:
  assumes "process_event clock event st = (st', r)"
  shows "generated_text st' = generated_text st \<or>
         (has_delta event \<and>
          sbind (carried_text event) (str_iadd (generated_text st)) = Inr (generated_text st'))"
proof -
  obtain s1 r1 where a: "on_message_start event st = (s1, r1)" by force
  obtain s2 r2 where b: "on_content_delta clock event s1 = (s2, r2)" by force
  obtain s3 r3 where c: "on_message_stop event s2 = (s3, r3)" by force
  obtain s4 r4 where d: "on_metadata event s3 = (s4, r4)" by force
  note g1 = start_keeps(2) [OF a]
  note g2 = delta_text_cases [OF b]
  note g3 = stop_keeps(2) [OF c]
  note g4 = metadata_keeps(2) [OF d]
  from assms a b c d have "st' = s1 \<or> st' = s2 \<or> st' = s3 \<or> st' = s4"
    by (auto simp: process_event_def seq_def split: option.splits)
  with g1 g2 g3 g4 show ?thesis by auto
qed

lemma is_delta_simps [simp]:
  "is_delta (Yield event) = has_delta event"
  "is_delta (Raise e) = False"
  by (simp_all add: is_delta_def)

lemma item_text_simps [simp]:
  "item_text (Yield event) = (if has_delta event then delta_text event else [])"
  "item_text (Raise e) = []"
  by (simp_all add: item_text_def)

lemma consume_Yield_None:
  assumes "consume clock (Yield event # items) st = (st', None)"
  obtains s1 where "process_event clock event st = (s1, None)" "consume clock items s1 = (st', None)"
  using assms by (auto split: prod.splits option.splits)

lemma consume_timing:
  "consume clock items st = (st', None) \<Longrightarrow>
   timing st' = timing ((time_delta clock ^^ length (filter is_delta items)) st)"
proof (induction items arbitrary: st)
  case Nil
  then show ?case by simp
next
  case (Cons item items)
  show ?case
  proof (cases item)
    case (Raise e)
    with Cons.prems show ?thesis by simp
  next
    case (Yield event)
    from Cons.prems(1) [unfolded Yield] obtain s1 where
      p: "process_event clock event st = (s1, None)" and
      c: "consume clock items s1 = (st', None)"
      by (rule consume_Yield_None)
    let ?n = "length (filter is_delta items)"
    have "timing st' = timing ((time_delta clock ^^ ?n) s1)"
      by (rule Cons.IH [OF c])
    also have "\<dots> = timing ((time_delta clock ^^ ?n) (if has_delta event then time_delta clock st else st))"
      by (rule timing_funpow_cong) (rule process_event_success(1) [OF p])
    finally show ?thesis
      using Yield by (simp add: funpow_swap1)
  qed
qed

lemma consume_text_success:
  "consume clock items st = (st', None) \<Longrightarrow> generated_text st = PStr g \<Longrightarrow>
   generated_text st' = PStr (g @ delta_texts items)"
proof (induction items arbitrary: st g)
  case Nil
  then show ?case by (simp add: delta_texts_def)
next
  case (Cons item items)
  show ?case
  proof (cases item)
    case (Raise e)
    with Cons.prems show ?thesis by simp
  next
    case (Yield event)
    from Cons.prems(1) [unfolded Yield] obtain s1 where
      p: "process_event clock event st = (s1, None)" and
      c: "consume clock items s1 = (st', None)"
      by (rule consume_Yield_None)
    have "generated_text s1 = PStr (g @ item_text item)"
    proof (cases "has_delta event")
      case True
      with process_event_success(2) [OF p] Cons.prems(2)
      have "sbind (carried_text event) (str_iadd (PStr g)) = Inr (generated_text s1)" by simp
      from appended_text [OF this] True Yield show ?thesis by simp
    next
      case False
      with process_event_success(2) [OF p] Cons.prems(2) Yield show ?thesis
        by simp
    qed
    from Cons.IH [OF c this] show ?thesis by (simp add: delta_texts_def)
  qed
qed

lemma process_event_text_str:
  assumes "process_event clock event st = (st', r)" and "generated_text st = PStr g"
  shows "generated_text st' = PStr g \<or> generated_text st' = PStr (g @ item_text (Yield event))"
proof -
  from process_event_text [OF assms(1)] assms(2)
  consider "generated_text st' = PStr g"
    | "has_delta event" "sbind (carried_text event) (str_iadd (PStr g)) = Inr (generated_text st')"
    by auto
  then show ?thesis
  proof cases
    case 1
    then show ?thesis by simp
  next
    case 2
    from appended_text [OF 2(2)] 2(1) show ?thesis by simp
  qed
qed

lemma consume_text_failure:
  "consume clock items st = (st', Some e) \<Longrightarrow> generated_text st = PStr g \<Longrightarrow>
   \<exists>i<length items.
      snd (consume clock (take i items) st) = None \<and>
      snd (consume clock (take (Suc i) items) st) \<noteq> None \<and>
      (generated_text st' = PStr (g @ delta_texts (take i items)) \<or>
       generated_text st' = PStr (g @ delta_texts (take (Suc i) items)))"
proof (induction items arbitrary: st g)
  case Nil
  then show ?case by simp
next
  case (Cons item items)
  show ?case
  proof (cases item)
    case (Raise e')
    with Cons.prems have "st' = st" by simp
    with Cons.prems(2) Raise show ?thesis
      by (intro exI [of _ 0]) (simp add: delta_texts_def)
  next
    case (Yield event)
    obtain s1 r1 where p: "process_event clock event st = (s1, r1)" by force
    show ?thesis
    proof (cases r1)
      case None
      with p Cons.prems(1) Yield have c: "consume clock items s1 = (st', Some e)" by simp
      from consume_text_success [of clock "[Yield event]" st s1 g] p None Cons.prems(2)
      have g1: "generated_text s1 = PStr (g @ item_text item)"
        using Yield by (simp add: delta_texts_def)
      from Cons.IH [OF c g1] obtain i where
        i: "i < length items"
           "snd (consume clock (take i items) s1) = None"
           "snd (consume clock (take (Suc i) items) s1) \<noteq> None"
           "generated_text st' = PStr ((g @ item_text item) @ delta_texts (take i items)) \<or>
            generated_text st' = PStr ((g @ item_text item) @ delta_texts (take (Suc i) items))"
        by blast
      show ?thesis
      proof (intro exI [of _ "Suc i"] conjI)
        show "Suc i < length (item # items)" using i(1) by simp
        show "snd (consume clock (take (Suc i) (item # items)) st) = None"
          using i(2) p None Yield by simp
        show "snd (consume clock (take (Suc (Suc i)) (item # items)) st) \<noteq> None"
          using i(3) p None Yield by simp
        show "generated_text st' = PStr (g @ delta_texts (take (Suc i) (item # items))) \<or>
              generated_text st' = PStr (g @ delta_texts (take (Suc (Suc i)) (item # items)))"
          using i(4) by (simp add: delta_texts_def)
      qed
    next
      case (Some e1)
      with p Cons.prems(1) Yield have "st' = s1" by simp
      with process_event_text_str [OF p Cons.prems(2)] p Some Yield show ?thesis
        by (intro exI [of _ 0]) (auto simp: delta_texts_def)
    qed
  qed
qed

lemma compute_throughput_keeps:
  assumes "compute_throughput clock st = (st', r)"
  shows "ttft st' = ttft st" "time_to_next_token st' = time_to_next_token st"
    "generated_text st' = generated_text st" "usage st' = usage st"
    "error_msg st' = error_msg st" "error_response_code st' = error_response_code st"
  using assms
  by (auto simp: compute_throughput_def seq_def assign_def Let_def split: sum.splits)


lemma llm_request_returns:
  assumes "llm_request env clock converse_fn converse_stream_fn rc = Inr (bm, txt, rc')"
  obtains api sm where
    "build_request rc = (rc', Inr (api, sm))"
    "post_process (try_block clock converse_fn converse_stream_fn api sm) = Inr bm"
    "txt = generated_text (fst (try_block clock converse_fn converse_stream_fn api sm))"
  using assms
  by (auto simp: llm_request_def sbind_def Let_def split: if_splits prod.splits sum.splits)

lemma post_process_fields:
  assumes "post_process (st, r) = Inr bm"
  shows "TTFT bm = ttft st" "INTER_TOKEN_LAT bm = sum_list (time_to_next_token st)"
    "E2E_LAT bm = total_request_time st" "REQ_OUTPUT_THROUGHPUT bm = output_throughput st"
    "ERROR_MSG bm = (case r of None \<Rightarrow> PStr [] | Some e \<Rightarrow> error_msg st)"
    "ERROR_CODE bm = (case r of None \<Rightarrow> PNone | Some e \<Rightarrow> error_response_code st)"
    "subscr (usage st) ''totalTokens'' = Inr (NUM_TOTAL_TOKENS bm)"
    "subscr (usage st) ''outputTokens'' = Inr (NUM_OUTPUT_TOKENS bm)"
    "subscr (usage st) ''inputTokens'' = Inr (NUM_INPUT_TOKENS bm)"
  using assms
  by (auto simp: post_process_def sbind_def split: sum.splits)

lemma try_block_stream:
  assumes "truthy sm" "converse_stream_fn api = Inr (Some items)"
  shows "try_block clock converse_fn converse_stream_fn api sm =
         seq (consume clock items (init_locals clock)) (compute_throughput clock)"
  using assms by (simp add: try_block_def stream_path_def)

lemma timing_step:
  "timing st = (f, gs, s0, m, n) \<Longrightarrow>
   timing (time_delta clock st) =
     ((if f = 0 then clock n - s0 else f),
      gs @ [if f = 0 then clock n - s0 else clock n - m], s0, clock (n + 1), n + 2)"
  by (simp add: timing_def time_delta_timing)


text \<open>
  C1. A failure during call execution or event consumption should not reach the caller.
  For a stream that delivers a message start and two content deltas and then ends, no
  usage is captured: line 177 raises inside the \<^verbatim>\<open>try\<close> block and is caught, but line
  191 reads \<^verbatim>\<open>usage["totalTokens"]\<close> outside it, and \<^verbatim>\<open>llm_request\<close> raises
  \<^verbatim>\<open>KeyError\<close> to its caller. The same happens when the remote call itself raises.
\<close>

theorem interrupted_stream_raises:
  "llm_request example_env clock converse_fn (\<lambda>api. Inr (Some interrupted_stream)) rc_stream
     = Inl (KeyError ''totalTokens'') \<and>
   llm_request example_env clock (\<lambda>api. Inl (RemoteError ''ThrottlingException'')) converse_stream_fn rc_plain
     = Inl (KeyError ''totalTokens'')"
proof
  show "llm_request example_env clock converse_fn (\<lambda>api. Inr (Some interrupted_stream)) rc_stream
     = Inl (KeyError ''totalTokens'')"
    by (simp add: llm_request_def env_unset_def example_env_def build_request_rc_stream try_block_def
        stream_path_def interrupted_stream_def start_event_def delta_event_def process_event_def
        on_message_start_def on_content_delta_def on_message_stop_def on_metadata_def
        guarded_def assign_def seq_def sbind_def has_key_def init_locals_def time_delta_def
        compute_throughput_def post_process_def Let_def)
  show "llm_request example_env clock (\<lambda>api. Inl (RemoteError ''ThrottlingException'')) converse_stream_fn rc_plain
     = Inl (KeyError ''totalTokens'')"
    by (simp add: llm_request_def env_unset_def example_env_def build_request_def rc_plain_def
        rename_max_tokens_def extract_stream_def set_inference_config_def add_request_body_def
        has_key_def try_block_def converse_path_def seq_def sbind_def init_locals_def
        compute_throughput_def assign_def post_process_def)
qed

lemma three_delta_build:
  "build_request rc_stream =
     (rc_stream\<lparr>sampling_params := Some [(''maxTokens'', PInt 100)]\<rparr>,
      Inr ([(''modelId'', PStr ''m''),
            (''messages'', PList [PDict [(''role'', PStr ''user''),
                                         (''content'', PList [PDict [(''text'', PStr ''hi'')]])]]),
            (''inferenceConfig'', PDict [(''maxTokens'', PInt 100)])], PBool True))"
  by (rule build_request_rc_stream)

lemma three_delta_consume:
  "snd (consume sim_clock three_delta_stream (init_locals sim_clock)) = None"
  by (simp add: three_delta_stream_def start_event_def delta_event_def stop_event_def
      usage_event_def process_event_def on_message_start_def on_content_delta_def
      on_message_stop_def on_metadata_def guarded_def assign_def seq_def sbind_def has_key_def
      init_locals_def time_delta_def sim_clock_def Let_def)

lemma three_delta_request:
  "\<exists>bm txt rc'. llm_request example_env sim_clock no_converse
      (\<lambda>api. Inr (Some three_delta_stream)) rc_stream = Inr (bm, txt, rc')"
  by (simp add: llm_request_def env_unset_def example_env_def build_request_rc_stream
      try_block_def stream_path_def three_delta_stream_def start_event_def delta_event_def
      stop_event_def usage_event_def process_event_def on_message_start_def
      on_content_delta_def on_message_stop_def on_metadata_def guarded_def assign_def seq_def
      sbind_def has_key_def init_locals_def time_delta_def compute_throughput_def
      post_process_def sim_clock_def Let_def)






lemmas stream_defs = three_delta_stream_def failed_stream_def two_delta_stream_def
  start_event_def delta_event_def stop_event_def usage_event_def two_key_event_def

lemmas engine_defs = process_event_def on_message_start_def on_content_delta_def
  on_message_stop_def on_metadata_def guarded_def assign_def seq_def sbind_def has_key_def
  init_locals_def time_delta_def Let_def

lemma init_text: "generated_text (init_locals clock) = PStr []"
  by (simp add: init_locals_def)





text \<open>
  Two facts about every invocation. The locals \<^verbatim>\<open>error_msg\<close> and
  \<^verbatim>\<open>error_response_code\<close> are never assigned inside the \<^verbatim>\<open>try\<close> block, so every
  returned record has an empty error message and no error code, whether or not an
  exception was caught. And once \<^verbatim>\<open>ttft\<close> is not zero, no later event changes it.
\<close>

lemma process_event_reaches:
  assumes "process_event clock event st = (st', r)"
  obtains s1 r1 s2 r2 s3 r3 s4 r4 where
    "on_message_start event st = (s1, r1)"
    "on_content_delta clock event s1 = (s2, r2)"
    "on_message_stop event s2 = (s3, r3)"
    "on_metadata event s3 = (s4, r4)"
    "st' = s1 \<or> st' = s2 \<or> st' = s3 \<or> st' = s4"
proof -
  obtain s1 r1 where a: "on_message_start event st = (s1, r1)" by force
  obtain s2 r2 where b: "on_content_delta clock event s1 = (s2, r2)" by force
  obtain s3 r3 where c: "on_message_stop event s2 = (s3, r3)" by force
  obtain s4 r4 where d: "on_metadata event s3 = (s4, r4)" by force
  from assms a b c d have "st' = s1 \<or> st' = s2 \<or> st' = s3 \<or> st' = s4"
    by (auto simp: process_event_def seq_def split: option.splits)
  with a b c d show ?thesis by (rule that)
qed

lemma delta_keeps_errors:
  assumes "on_content_delta clock event st = (s1, r)"
  shows "error_msg s1 = error_msg st" "error_response_code s1 = error_response_code st"
proof -
  from on_content_delta_cases [OF assms]
  consider "s1 = st" | "s1 = time_delta clock st"
    | "s1\<lparr>generated_text := generated_text st\<rparr> = time_delta clock st"
    by blast
  then have "error_msg s1 = error_msg st \<and> error_response_code s1 = error_response_code st"
  proof cases
    case 3
    from arg_cong [OF 3, of error_msg] arg_cong [OF 3, of error_response_code]
    show ?thesis by simp
  qed simp_all
  then show "error_msg s1 = error_msg st" "error_response_code s1 = error_response_code st"
    by simp_all
qed

lemma delta_keeps_ttft:
  assumes "on_content_delta clock event st = (s1, r)" and "ttft st \<noteq> 0"
  shows "ttft s1 = ttft st"
proof -
  from on_content_delta_cases [OF assms(1)]
  consider "s1 = st" | "s1 = time_delta clock st"
    | "s1\<lparr>generated_text := generated_text st\<rparr> = time_delta clock st"
    by blast
  then show ?thesis
  proof cases
    case 1
    then show ?thesis by simp
  next
    case 2
    with assms(2) show ?thesis by (simp add: time_delta_timing)
  next
    case 3
    from arg_cong [OF 3, of ttft] assms(2) show ?thesis by (simp add: time_delta_timing)
  qed
qed

lemma process_event_keeps_errors:
  assumes "process_event clock event st = (st', r)"
  shows "error_msg st' = error_msg st \<and> error_response_code st' = error_response_code st"
proof -
  from assms obtain s1 r1 s2 r2 s3 r3 s4 r4 where
    a: "on_message_start event st = (s1, r1)" and
    b: "on_content_delta clock event s1 = (s2, r2)" and
    c: "on_message_stop event s2 = (s3, r3)" and
    d: "on_metadata event s3 = (s4, r4)" and
    e: "st' = s1 \<or> st' = s2 \<or> st' = s3 \<or> st' = s4"
    by (rule process_event_reaches)
  have 1: "error_msg s1 = error_msg st" "error_response_code s1 = error_response_code st"
    using arg_cong [OF on_message_start_frame [OF a], of error_msg]
      arg_cong [OF on_message_start_frame [OF a], of error_response_code] by simp_all
  note 2 = delta_keeps_errors [OF b]
  have 3: "error_msg s3 = error_msg s2" "error_response_code s3 = error_response_code s2"
    using arg_cong [OF on_message_stop_frame [OF c], of error_msg]
      arg_cong [OF on_message_stop_frame [OF c], of error_response_code] by simp_all
  have 4: "error_msg s4 = error_msg s3" "error_response_code s4 = error_response_code s3"
    using arg_cong [OF on_metadata_frame [OF d], of error_msg]
      arg_cong [OF on_metadata_frame [OF d], of error_response_code] by simp_all
  from e 1 2 3 4 show ?thesis by auto
qed

lemma process_event_keeps_ttft:
  assumes "process_event clock event st = (st', r)" and "ttft st \<noteq> 0"
  shows "ttft st' = ttft st"
proof -
  from assms(1) obtain s1 r1 s2 r2 s3 r3 s4 r4 where
    a: "on_message_start event st = (s1, r1)" and
    b: "on_content_delta clock event s1 = (s2, r2)" and
    c: "on_message_stop event s2 = (s3, r3)" and
    d: "on_metadata event s3 = (s4, r4)" and
    e: "st' = s1 \<or> st' = s2 \<or> st' = s3 \<or> st' = s4"
    by (rule process_event_reaches)
  have 1: "ttft s1 = ttft st" using start_keeps(1) [OF a] by (simp add: timing_def)
  with assms(2) have 2: "ttft s2 = ttft s1" using delta_keeps_ttft [OF b] by simp
  have 3: "ttft s3 = ttft s2" using stop_keeps(1) [OF c] by (simp add: timing_def)
  have 4: "ttft s4 = ttft s3" using metadata_keeps(1) [OF d] by (simp add: timing_def)
  from e 1 2 3 4 show ?thesis by auto
qed

lemma consume_keeps_errors:
  "consume clock items st = (st', r) \<Longrightarrow>
   error_msg st' = error_msg st \<and> error_response_code st' = error_response_code st"
proof (induction items arbitrary: st)
  case Nil
  then show ?case by simp
next
  case (Cons item items)
  show ?case
  proof (cases item)
    case (Raise e)
    with Cons.prems show ?thesis by simp
  next
    case (Yield event)
    obtain s1 r1 where p: "process_event clock event st = (s1, r1)" by force
    note k = process_event_keeps_errors [OF p]
    show ?thesis
    proof (cases r1)
      case None
      with p Cons.prems Yield have "consume clock items s1 = (st', r)" by simp
      from Cons.IH [OF this] k show ?thesis by simp
    next
      case (Some e)
      with p Cons.prems Yield have "st' = s1" by simp
      with k show ?thesis by simp
    qed
  qed
qed

lemma ttft_frozen_once_nonzero:
  "ttft st \<noteq> 0 \<Longrightarrow> ttft (fst (consume clock items st)) = ttft st"
proof (induction items arbitrary: st)
  case Nil
  then show ?case by simp
next
  case (Cons item items)
  show ?case
  proof (cases item)
    case (Raise e)
    then show ?thesis by simp
  next
    case (Yield event)
    obtain s1 r1 where p: "process_event clock event st = (s1, r1)" by force
    note k = process_event_keeps_ttft [OF p Cons.prems]
    show ?thesis
    proof (cases r1)
      case None
      from k Cons.prems have "ttft s1 \<noteq> 0" by simp
      from Cons.IH [OF this] k p None Yield show ?thesis by simp
    next
      case (Some e)
      with p k Yield show ?thesis by simp
    qed
  qed
qed

lemma converse_path_keeps_errors:
  assumes "converse_path r st = (st', c)"
  shows "error_msg st' = error_msg st \<and> error_response_code st' = error_response_code st"
  using assms
  by (auto simp: converse_path_def seq_def assign_def Let_def split: sum.splits)

lemma try_block_keeps_errors:
  assumes "try_block clock converse_fn converse_stream_fn api sm = (st, c)"
  shows "error_msg st = PStr [] \<and> error_response_code st = PNone"
proof -
  let ?first = "if truthy sm
          then stream_path clock (converse_stream_fn api) (init_locals clock)
          else converse_path (converse_fn api) (init_locals clock)"
  obtain s1 r1 where f: "?first = (s1, r1)" by force
  have i: "error_msg (init_locals clock) = PStr []" "error_response_code (init_locals clock) = PNone"
    by (simp_all add: init_locals_def)
  have 1: "error_msg s1 = PStr [] \<and> error_response_code s1 = PNone"
  proof (cases "truthy sm")
    case True
    with f have "stream_path clock (converse_stream_fn api) (init_locals clock) = (s1, r1)" by simp
    then show ?thesis
      using i consume_keeps_errors [of clock _ "init_locals clock" s1 r1]
      by (auto simp: stream_path_def split: sum.splits option.splits)
  next
    case False
    with f have "converse_path (converse_fn api) (init_locals clock) = (s1, r1)" by simp
    from converse_path_keeps_errors [OF this] i show ?thesis by simp
  qed
  show ?thesis
  proof (cases r1)
    case None
    with assms f have c: "compute_throughput clock s1 = (st, c)"
      by (simp add: try_block_def seq_def)
    from compute_throughput_keeps(5,6) [OF c] 1 show ?thesis by simp
  next
    case (Some e)
    with assms f have "st = s1" by (simp add: try_block_def seq_def)
    with 1 show ?thesis by simp
  qed
qed

lemma error_fields_never_populated:
  assumes "llm_request env clock converse_fn converse_stream_fn rc = Inr (bm, txt, rc')"
  shows "ERROR_MSG bm = PStr [] \<and> ERROR_CODE bm = PNone"
proof -
  from assms obtain api sm where
    p: "post_process (try_block clock converse_fn converse_stream_fn api sm) = Inr bm"
    by (rule llm_request_returns)
  obtain st c where t: "try_block clock converse_fn converse_stream_fn api sm = (st, c)" by force
  from p t have "post_process (st, c) = Inr bm" by simp
  from post_process_fields(5,6) [OF this] try_block_keeps_errors [OF t]
  show ?thesis by (cases c) simp_all
qed

text \<open>
  C9. A streaming invocation that returns, returns as generated text the concatenation, in
  arrival order, of the texts of the content deltas it observed. When the stream is
  consumed without an exception these are the deltas of the whole stream. When an
  exception ends the loop at the item of index \<open>i\<close> (the items before it were consumed,
  that item was not), they are the deltas of the first \<open>i\<close> items, together with the
  delta of item \<open>i\<close> itself when its text was appended before a later statement of the
  same iteration raised.
\<close>

theorem streamed_text_is_concatenation:
  assumes "build_request rc = (rc', Inr (api, sm))" and "truthy sm"
    and "converse_stream_fn api = Inr (Some items)"
    and "llm_request env clock converse_fn converse_stream_fn rc = Inr (bm, txt, rc'')"
  shows "(snd (consume clock items (init_locals clock)) = None \<longrightarrow>
            txt = PStr (delta_texts items)) \<and>
         (snd (consume clock items (init_locals clock)) \<noteq> None \<longrightarrow>
            (\<exists>i<length items.
               snd (consume clock (take i items) (init_locals clock)) = None \<and>
               snd (consume clock (take (Suc i) items) (init_locals clock)) \<noteq> None \<and>
               (txt = PStr (delta_texts (take i items)) \<or>
                txt = PStr (delta_texts (take (Suc i) items)))))"
proof -
  from assms(4) obtain api' sm' where
    b: "build_request rc = (rc'', Inr (api', sm'))" and
    t: "txt = generated_text (fst (try_block clock converse_fn converse_stream_fn api' sm'))"
    by (rule llm_request_returns)
  from b assms(1) have eq: "api' = api" "sm' = sm" by simp_all
  note tb = try_block_stream [where converse_stream_fn = converse_stream_fn and api = api,
      OF assms(2,3), of clock converse_fn]
  obtain st r where c: "consume clock items (init_locals clock) = (st, r)" by force
  have g: "txt = generated_text st"
  proof (cases r)
    case None
    obtain st2 r2 where ct: "compute_throughput clock st = (st2, r2)" by force
    from t eq tb c None ct compute_throughput_keeps(3) [OF ct] show ?thesis
      by (simp add: seq_def)
  next
    case (Some e)
    with t eq tb c show ?thesis by (simp add: seq_def)
  qed
  show ?thesis
  proof (cases r)
    case None
    with consume_text_success [of clock items "init_locals clock" st "[]"] c g init_text
    show ?thesis by simp
  next
    case (Some e)
    with consume_text_failure [of clock items "init_locals clock" st e "[]"] c g init_text
    show ?thesis by simp
  qed
qed

lemma failed_stream_request:
  "llm_request example_env sim_clock no_converse (\<lambda>api. Inr (Some failed_stream)) rc_stream =
     Inr (\<lparr> ERROR_CODE = PNone, ERROR_MSG = PStr [], INTER_TOKEN_LAT = 1 / 10, TTFT = 1 / 10,
            E2E_LAT = 0, REQ_OUTPUT_THROUGHPUT = 0, NUM_TOTAL_TOKENS = PInt 8,
            NUM_OUTPUT_TOKENS = PInt 5, NUM_INPUT_TOKENS = PInt 3 \<rparr>,
          PStr ''Hi'', rc_stream\<lparr>sampling_params := Some [(''maxTokens'', PInt 100)]\<rparr>)"
  by (simp add: llm_request_def env_unset_def example_env_def build_request_rc_stream
      try_block_def stream_path_def stream_defs engine_defs compute_throughput_def
      post_process_def sim_clock_def)

lemma failed_stream_caught:
  "snd (try_block sim_clock no_converse (\<lambda>api. Inr (Some failed_stream)) api (PBool True))
     = Some (RemoteError ''modelStreamErrorException'')"
  by (simp add: try_block_def stream_path_def stream_defs engine_defs sim_clock_def)

lemma failed_stream_consume:
  "snd (consume sim_clock failed_stream (init_locals sim_clock)) \<noteq> None"
  by (simp add: stream_defs engine_defs sim_clock_def)

theorem streamed_text_is_concatenation_witness:
  "(\<exists>bm rc'. llm_request example_env sim_clock no_converse
       (\<lambda>api. Inr (Some three_delta_stream)) rc_stream
         = Inr (bm, PStr (delta_texts three_delta_stream), rc')) \<and>
   delta_texts three_delta_stream = ''abc'' \<and>
   (\<exists>bm gen rc' i. llm_request example_env sim_clock no_converse
       (\<lambda>api. Inr (Some failed_stream)) rc_stream = Inr (bm, gen, rc') \<and>
       i < length failed_stream \<and>
       snd (consume sim_clock (take i failed_stream) (init_locals sim_clock)) = None \<and>
       snd (consume sim_clock (take (Suc i) failed_stream) (init_locals sim_clock)) \<noteq> None \<and>
       (gen = PStr (delta_texts (take i failed_stream)) \<or>
        gen = PStr (delta_texts (take (Suc i) failed_stream))))"
proof (intro conjI)
  obtain bm gen rc' where
    r: "llm_request example_env sim_clock no_converse
          (\<lambda>api. Inr (Some three_delta_stream)) rc_stream = Inr (bm, gen, rc')"
    using three_delta_request by blast
  from streamed_text_is_concatenation [OF three_delta_build _ _ r] three_delta_consume
  have "gen = PStr (delta_texts three_delta_stream)" by simp
  with r show "\<exists>bm rc'. llm_request example_env sim_clock no_converse
       (\<lambda>api. Inr (Some three_delta_stream)) rc_stream
         = Inr (bm, PStr (delta_texts three_delta_stream), rc')"
    by blast
  show "delta_texts three_delta_stream = ''abc''"
    by (simp add: delta_texts_def has_delta_def delta_text_def carried_text_def stream_defs
        sbind_def has_key_def)
  from streamed_text_is_concatenation [OF three_delta_build _ _ failed_stream_request]
    failed_stream_consume
  have "\<exists>i<length failed_stream.
       snd (consume sim_clock (take i failed_stream) (init_locals sim_clock)) = None \<and>
       snd (consume sim_clock (take (Suc i) failed_stream) (init_locals sim_clock)) \<noteq> None \<and>
       (PStr ''Hi'' = PStr (delta_texts (take i failed_stream)) \<or>
        PStr ''Hi'' = PStr (delta_texts (take (Suc i) failed_stream)))"
    by simp
  with failed_stream_request
  show "\<exists>bm gen rc' i. llm_request example_env sim_clock no_converse
       (\<lambda>api. Inr (Some failed_stream)) rc_stream = Inr (bm, gen, rc') \<and>
       i < length failed_stream \<and>
       snd (consume sim_clock (take i failed_stream) (init_locals sim_clock)) = None \<and>
       snd (consume sim_clock (take (Suc i) failed_stream) (init_locals sim_clock)) \<noteq> None \<and>
       (gen = PStr (delta_texts (take i failed_stream)) \<or>
        gen = PStr (delta_texts (take (Suc i) failed_stream)))"
    by blast
qed




text \<open>
  C2. When a failure is caught, the returned record should carry its description in the
  error fields and have throughput and token counts omitted or zeroed. The handler of
  lines 181 to 183 stores the locals \<^verbatim>\<open>error_msg\<close> and \<^verbatim>\<open>error_response_code\<close>,
  which are never assigned after their initialisation to the empty string and
  \<^verbatim>\<open>None\<close>. For a stream that delivers a content delta and a metadata event with usage
  and then raises, the exception is caught and the record returned has an empty error
  message, no error code, and the token counts 8, 5 and 3 of the captured usage.
\<close>

theorem caught_failure_not_reported:
  "llm_request example_env sim_clock no_converse (\<lambda>api. Inr (Some failed_stream)) rc_stream =
     Inr (\<lparr> ERROR_CODE = PNone, ERROR_MSG = PStr [], INTER_TOKEN_LAT = 1 / 10, TTFT = 1 / 10,
            E2E_LAT = 0, REQ_OUTPUT_THROUGHPUT = 0, NUM_TOTAL_TOKENS = PInt 8,
            NUM_OUTPUT_TOKENS = PInt 5, NUM_INPUT_TOKENS = PInt 3 \<rparr>,
          PStr ''Hi'', rc_stream\<lparr>sampling_params := Some [(''maxTokens'', PInt 100)]\<rparr>) \<and>
   snd (try_block sim_clock no_converse (\<lambda>api. Inr (Some failed_stream)) api (PBool True))
     = Some (RemoteError ''modelStreamErrorException'')"
  using failed_stream_request failed_stream_caught by simp

text \<open>
  C6. Time-to-first-token should be set by the first content delta and not change
  afterwards. Line 141 tests \<^verbatim>\<open>not ttft\<close> to recognise the first delta, so a first delta
  whose elapsed time is zero leaves the test true: under a clock that shows the start
  time while the first delta is handled and half a second later for the second, the
  value is 0 after the first delta and 0.5 after the second, and 0.5 is returned.
\<close>

theorem ttft_not_frozen:
  "ttft (fst (consume coarse_clock [Yield (delta_event ''a'')] (init_locals coarse_clock))) = 0 \<and>
   ttft (fst (consume coarse_clock [Yield (delta_event ''a''), Yield (delta_event ''b'')]
                (init_locals coarse_clock))) = 1 / 2 \<and>
   (\<exists>bm gen rc'. llm_request example_env coarse_clock no_converse
       (\<lambda>api. Inr (Some two_delta_stream)) rc_stream = Inr (bm, gen, rc') \<and> TTFT bm = 1 / 2)"
  by (simp add: llm_request_def env_unset_def example_env_def build_request_rc_stream
      try_block_def stream_path_def stream_defs engine_defs compute_throughput_def
      post_process_def coarse_clock_def)

text \<open>
  The doubles of the literals, and the arithmetic of the three-delta scenario: each
  difference and each partial sum that lines 142, 146 and 187 compute at the readings
  0.0, 0.1, 0.3 and 0.3 is itself a double, so the rounded operations of the code return
  exactly the values of the model.
\<close>

lemma double_literals:
  "nearest_dbl 7205759403792794 56 (1 / 10)"
  "nearest_dbl 7205759403792794 55 (2 / 10)"
  "nearest_dbl 5404319552844595 54 (3 / 10)"
  by (simp_all add: nearest_dbl_def is_dbl_def dbl_def)

lemma double_exact:
  "double_01 - 0 = double_01"
  "double_03 - double_01 = double_03_minus_01"
  "is_dbl 7205759403792793 55"
  "double_03 - double_03 = 0"
  "0 + double_01 = double_01"
  "double_01 + double_03_minus_01 = double_03"
  "double_03 + 0 = double_03"
  by (simp_all add: double_01_def double_03_def double_03_minus_01_def dbl_def is_dbl_def)

lemma double_facts:
  "double_01 \<noteq> 0" "double_03_minus_01 \<noteq> double_02" "double_03_minus_01 < double_02"
  "double_02 - double_03_minus_01 = 1 / 2 ^ 55"
  by (simp_all add: double_01_def double_02_def double_03_minus_01_def dbl_def)

lemma three_double_deltas:
  assumes "clock 0 = 0" and "reads_at clock 0 double_01" and "reads_at clock 1 double_03"
    and "reads_at clock 2 double_03"
  shows "timing ((time_delta clock ^^ 3) (init_locals clock)) =
         (double_01, [double_01, double_03_minus_01, 0], 0, double_03, 8)"
proof -
  from assms(2) have c2: "clock 2 = double_01"
    by (simp add: reads_at_def numeral_2_eq_2)
  from assms(2-4) have c2': "clock 3 = double_01" "clock 4 = double_03"
    "clock 5 = double_03" "clock 6 = double_03" "clock 7 = double_03"
    by (simp_all add: reads_at_def)
  note c = assms(1) c2 c2'
  have e: "(time_delta clock ^^ 3) (init_locals clock) =
           time_delta clock (time_delta clock (time_delta clock (init_locals clock)))"
    by (simp add: numeral_3_eq_3)
  have t0: "timing (init_locals clock) = (0, [], 0, clock 1, 2)"
    by (simp add: timing_def init_locals_def c)
  have t1: "timing (time_delta clock (init_locals clock)) =
            (double_01, [double_01], 0, double_01, 4)"
    using timing_step [OF t0, of clock] by (simp add: c)
  have t2: "timing (time_delta clock (time_delta clock (init_locals clock))) =
            (double_01, [double_01, double_03_minus_01], 0, double_03, 6)"
    using timing_step [OF t1, of clock] by (simp add: c double_facts(1) double_exact(2))
  show ?thesis
    using timing_step [OF t2, of clock] by (simp add: c e double_facts(1))
qed

lemma double_clock_readings:
  "double_clock 0 = 0" "double_clock (Suc 0) = 0" "double_clock 2 = double_01"
  "double_clock 3 = double_01" "double_clock 4 = double_03" "double_clock 5 = double_03"
  "double_clock 6 = double_03" "double_clock 7 = double_03" "double_clock 8 = 1 / 2"
  by (simp_all add: double_clock_def dbl_def)

lemma double_consume:
  "consume double_clock three_delta_stream (init_locals double_clock) =
     (\<lparr> role = PStr ''assistant'', generated_text = PStr ''abc'',
        message_stop = PStr ''end_turn'',
        usage = PDict [(''inputTokens'', PInt 3), (''outputTokens'', PInt 5),
                       (''totalTokens'', PInt 8)],
        metrics = PDict [(''latencyMs'', PInt 120)],
        time_to_next_token = [double_01, double_03_minus_01, 0], tokens_received = PInt 0,
        ttft = double_01, error_response_code = PNone, error_msg = PStr [],
        output_throughput = 0, total_request_time = 0, start_time = 0,
        most_recent_received_token_time = double_03, ticks = 8 \<rparr>, None)"
  by (simp add: stream_defs engine_defs double_clock_readings double_facts(1) double_exact(2))

lemma double_request:
  "\<exists>bm gen rc'. llm_request example_env double_clock no_converse
      (\<lambda>api. Inr (Some three_delta_stream)) rc_stream = Inr (bm, gen, rc')"
  by (simp add: llm_request_def env_unset_def example_env_def build_request_rc_stream
      try_block_def stream_path_def double_consume seq_def assign_def
      compute_throughput_def post_process_def sbind_def double_clock_readings Let_def)

text \<open>
  C4, as stated: with content deltas arriving at 0.1 s, 0.3 s and 0.3 s the recorded gaps
  are 0.1, 0.2 and 0.0. The clock readings are doubles, and the difference of the doubles
  0.3 and 0.1 is not the double 0.2 (nor the real 2/10) but the double one unit in the
  last place below it: under \<open>double_clock\<close> the loop records the gaps 0.1,
  0.19999999999999998 and 0.0.
\<close>

theorem three_deltas_gap_below_fifth:
  "time_to_next_token (fst (consume double_clock three_delta_stream (init_locals double_clock)))
     = [double_01, double_03_minus_01, 0] \<and>
   double_03_minus_01 \<noteq> double_02 \<and> double_03_minus_01 \<noteq> 2 / 10 \<and>
   time_to_next_token (fst (consume double_clock three_delta_stream (init_locals double_clock)))
     \<noteq> [double_01, double_02, 0]"
  by (simp add: double_consume double_facts(2))
     (simp add: double_03_minus_01_def dbl_def)

text \<open>
  C4, amended. In a streaming invocation started at clock reading 0.0 whose three content
  deltas are handled at the readings 0.1, 0.3 and 0.3 (doubles), and whose stream is
  consumed without an exception, the loop leaves time-to-first-token 0.1 and the gaps
  0.1, \<^verbatim>\<open>0.3 - 0.1\<close> (the double 0.19999999999999998) and 0.0: the first gap is the
  time-to-first-token, each later gap the difference between the reading at that
  delta and the reading at the previous one. The returned record has time-to-first-token
  0.1 and, as inter-token latency, the sum of the gaps, the double 0.3.
\<close>

theorem three_deltas_double_timing:
  assumes "clock 0 = 0" and "reads_at clock 0 double_01" and "reads_at clock 1 double_03"
    and "reads_at clock 2 double_03"
    and "build_request rc = (rc', Inr (api, sm))" and "truthy sm"
    and "converse_stream_fn api = Inr (Some items)"
    and "consume clock items (init_locals clock) = (st, None)"
    and "length (filter is_delta items) = 3"
    and "llm_request env clock converse_fn converse_stream_fn rc = Inr (bm, txt, rc'')"
  shows "ttft st = double_01 \<and>
         time_to_next_token st = [double_01, double_03_minus_01, 0] \<and>
         TTFT bm = double_01 \<and> INTER_TOKEN_LAT bm = double_03"
proof -
  from consume_timing [OF assms(8)] assms(9) three_double_deltas [OF assms(1-4)]
  have t: "ttft st = double_01" "time_to_next_token st = [double_01, double_03_minus_01, 0]"
    by (simp_all add: timing_def)
  from assms(10) obtain api' sm' where
    b: "build_request rc = (rc'', Inr (api', sm'))" and
    p: "post_process (try_block clock converse_fn converse_stream_fn api' sm') = Inr bm"
    by (rule llm_request_returns)
  from b assms(5) have eq: "api' = api" "sm' = sm" by simp_all
  obtain st2 r where c: "compute_throughput clock st = (st2, r)" by force
  from p eq try_block_stream [where converse_stream_fn = converse_stream_fn and api = api,
      OF assms(6,7)] assms(8) c
  have "post_process (st2, r) = Inr bm" by (simp add: seq_def)
  from post_process_fields(1,2) [OF this] compute_throughput_keeps(1,2) [OF c] t
  show ?thesis by (simp add: double_exact(6))
qed

theorem three_deltas_double_timing_witness:
  "\<exists>(st::locals) bm gen rc'.
     double_clock 0 = 0 \<and> reads_at double_clock 0 double_01 \<and>
     reads_at double_clock 1 double_03 \<and> reads_at double_clock 2 double_03 \<and>
     length (filter is_delta three_delta_stream) = 3 \<and>
     consume double_clock three_delta_stream (init_locals double_clock) = (st, None) \<and>
     llm_request example_env double_clock no_converse
       (\<lambda>api. Inr (Some three_delta_stream)) rc_stream = Inr (bm, gen, rc') \<and>
     ttft st = double_01 \<and> time_to_next_token st = [double_01, double_03_minus_01, 0] \<and>
     TTFT bm = double_01 \<and> INTER_TOKEN_LAT bm = double_03"
proof -
  have z: "double_clock 0 = 0" by (rule double_clock_readings)
  have a: "reads_at double_clock 0 double_01" "reads_at double_clock 1 double_03"
    "reads_at double_clock 2 double_03"
    by (simp_all add: reads_at_def double_clock_def)
  have l: "length (filter is_delta three_delta_stream) = 3"
    by (simp add: three_delta_stream_def has_delta_def start_event_def delta_event_def
        stop_event_def usage_event_def has_key_def)
  obtain st where c: "consume double_clock three_delta_stream (init_locals double_clock) = (st, None)"
    using double_consume by blast
  obtain bm gen rc' where
    r: "llm_request example_env double_clock no_converse
          (\<lambda>api. Inr (Some three_delta_stream)) rc_stream = Inr (bm, gen, rc')"
    using double_request by blast
  have "ttft st = double_01 \<and> time_to_next_token st = [double_01, double_03_minus_01, 0] \<and>
        TTFT bm = double_01 \<and> INTER_TOKEN_LAT bm = double_03"
    using three_deltas_double_timing [OF z a three_delta_build _ _ c l r] by simp
  with z a l c r show ?thesis by blast
qed

end
